theory Spec2Isabelle
  imports Complex_Main "HOL-Library.Sublist" "HOL-Library.List_Lexorder" "HOL-Library.Char_ord"
begin

section \<open>Quota bookkeeping (youtube\_client.py, class QuotaManager)\<close>

text \<open>
  Python integers are unbounded, so every counter is an \<open>int\<close>. The class attribute
  \<open>COSTS\<close> is a dictionary from operation names to unit costs; an operation that is not a
  key of it costs 1 (\<open>COSTS.get(operation, 1)\<close>).
\<close>

record QuotaManager =
  daily_limit :: int
  used_quota :: int
  request_count :: int

definition COSTS :: "(string \<times> int) list" where
  "COSTS = [(''search'', 100), (''videos'', 1), (''channels'', 1)]"

definition cost_of :: "string \<Rightarrow> int" where
  "cost_of operation = (case map_of COSTS operation of Some c \<Rightarrow> c | None \<Rightarrow> 1)"

definition QuotaManager_init :: "int \<Rightarrow> QuotaManager" where
  "QuotaManager_init limit = \<lparr>daily_limit = limit, used_quota = 0, request_count = 0\<rparr>"

definition can_make_request :: "QuotaManager \<Rightarrow> string \<Rightarrow> bool" where
  "can_make_request qm operation = (used_quota qm + cost_of operation \<le> daily_limit qm)"

definition record_request :: "QuotaManager \<Rightarrow> string \<Rightarrow> QuotaManager" where
  "record_request qm operation =
     qm\<lparr>used_quota := used_quota qm + cost_of operation,
        request_count := request_count qm + 1\<rparr>"

definition get_remaining_quota :: "QuotaManager \<Rightarrow> int" where
  "get_remaining_quota qm = daily_limit qm - used_quota qm"

definition reset_quota :: "QuotaManager \<Rightarrow> QuotaManager" where
  "reset_quota qm = qm\<lparr>used_quota := 0, request_count := 0\<rparr>"

text \<open>A sequence of charges, applied from left to right to a ledger.\<close>

definition charge_all :: "QuotaManager \<Rightarrow> string list \<Rightarrow> QuotaManager" where
  "charge_all qm ops = foldl record_request qm ops"

section \<open>Exceptions, the remote service and the world (youtube\_client.py)\<close>

text \<open>
  Every exception of the source is a value. \<open>QuotaExceededError\<close> is raised with two
  messages: "Insufficient quota. Remaining: n" by the local check and "Daily quota limit
  exceeded ..." on the remote refusal; the payload tells them apart. \<open>HttpErrorExn\<close> is
  googleapiclient's \<open>HttpError\<close> with its status and text; \<open>OtherException\<close> is any
  other subclass of \<open>Exception\<close> that \<open>request.execute()\<close> lets through (a socket
  error, a timeout). \<open>AttributeError\<close> is what \<open>x.get(...)\<close> raises when \<open>x\<close> is
  not a dictionary. \<open>KeyboardInterrupt\<close> is not an \<open>Exception\<close> and is not modelled.
\<close>

datatype quota_message = InsufficientQuota int | DailyLimitExceeded

datatype exn =
    QuotaExceededError quota_message
  | HttpErrorExn int string
  | OtherException string
  | ValueError string
  | IOError string
  | AttributeError string

text \<open>
  A dictionary of strings is an association list; \<open>d.get(k, default)\<close> is \<open>dict_get\<close>.
  The raw resources of the API follow the shapes that the service documents: a search result
  has a \<open>snippet\<close> dictionary and an \<open>id\<close> that is a dictionary (search) or a plain
  string (videos.list); a channel resource has a string \<open>id\<close>, a \<open>snippet\<close>,
  \<open>statistics\<close> and \<open>brandingSettings\<close>. Nothing makes the service keep to these
  shapes, and the extractors call \<open>.get\<close> on what they are given. So an element of
  \<open>items\<close> is a dictionary or something else (\<open>null\<close>, a number, a string), and a
  key whose value should be a dictionary is absent, holds a dictionary, or holds
  \<open>null\<close>; on such a value, as on any that is not a dictionary, \<open>.get\<close> raises
  \<open>AttributeError\<close>.
\<close>

datatype 'a element = Dict 'a | NotDict

datatype 'a slot = Absent | Present 'a | JsonNull

type_synonym dict = "(string \<times> string) list"

definition dict_get :: "dict \<Rightarrow> string \<Rightarrow> string \<Rightarrow> string" where
  "dict_get d k dflt = (case map_of d k of Some v \<Rightarrow> v | None \<Rightarrow> dflt)"

datatype id_field = IdDict dict | IdStr string

record video_item =
  vi_id :: "id_field option"
  vi_snippet :: "dict slot"

record statistics =
  st_viewCount :: "string option"
  st_subscriberCount :: "string option"
  st_videoCount :: "string option"
  st_hiddenSubscriberCount :: "bool option"

record channel_item =
  ci_id :: "string option"
  ci_snippet :: "dict slot"
  ci_statistics :: "statistics slot"
  ci_brandingSettings :: "(string \<times> dict) list slot"

text \<open>A response dictionary: the keys \<open>items\<close> and \<open>nextPageToken\<close> may be absent.\<close>

record 'item response =
  items :: "'item list option"
  nextPageToken :: "string option"

datatype 'a outcome =
    Response 'a
  | HttpError int string
  | OtherError string

record search_request =
  part :: string
  q :: string
  type' :: string
  maxResults :: int
  pageToken :: "string option"
  order :: string

record list_request =
  lr_part :: string
  lr_id :: string

text \<open>
  One entry of the conversation with the remote service: the request sent and what
  \<open>execute()\<close> gave back. The service itself (\<open>self.youtube\<close>) is a parameter: its three
  endpoints answer a request knowing the conversation so far, so any sequence of pages,
  refusals and failures is some service.
\<close>

datatype call =
    SearchCall search_request "video_item element response outcome"
  | VideosCall list_request "video_item element response outcome"
  | ChannelsCall list_request "channel_item element response outcome"

record service =
  search_list :: "call list \<Rightarrow> search_request \<Rightarrow> video_item element response outcome"
  videos_list :: "call list \<Rightarrow> list_request \<Rightarrow> video_item element response outcome"
  channels_list :: "call list \<Rightarrow> list_request \<Rightarrow> channel_item element response outcome"

text \<open>
  The world outside the process: the wall clock (\<open>time.time()\<close>, idealised as a real
  number of seconds that only \<open>time.sleep\<close> advances), the sleeps performed, the
  conversation with the service, and the files on disk with the paths that cannot be written.
\<close>

record world =
  clock :: real
  slept :: "real list"
  trace :: "call list"
  files :: "(string \<times> string) list"
  unwritable :: "string list"

record YouTubeAPIClient =
  quota_manager :: QuotaManager
  min_request_interval :: real
  last_request_time :: real

definition YouTubeAPIClient_init ::
  "string option \<Rightarrow> string option \<Rightarrow> int \<Rightarrow> exn + YouTubeAPIClient" where
  "YouTubeAPIClient_init api_key env_key daily_quota =
     (let key = (if api_key \<noteq> None \<and> api_key \<noteq> Some [] then api_key else env_key) in
      if key = None \<or> key = Some []
      then Inl (ValueError ''YouTube API key not provided. Set YOUTUBE_API_KEY environment variable.'')
      else Inr \<lparr>quota_manager = QuotaManager_init daily_quota,
                min_request_interval = 1,
                last_request_time = 0\<rparr>)"

definition sleep :: "real \<Rightarrow> world \<Rightarrow> world" where
  "sleep d w = w\<lparr>clock := clock w + d, slept := slept w @ [d]\<rparr>"

definition wait_for_rate_limit :: "YouTubeAPIClient \<times> world \<Rightarrow> YouTubeAPIClient \<times> world" where
  "wait_for_rate_limit cw =
     (let c = fst cw; w = snd cw;
          current_time = clock w;
          time_since_last_request = current_time - last_request_time c;
          w' = (if time_since_last_request < min_request_interval c
                then sleep (min_request_interval c - time_since_last_request) w
                else w)
      in (c\<lparr>last_request_time := clock w'\<rparr>, w'))"

definition quota_exceeded_signal :: "int \<Rightarrow> string \<Rightarrow> bool" where
  "quota_exceeded_signal status text = (status = 403 \<and> sublist ''quotaExceeded'' text)"

text \<open>
  The \<open>except HttpError\<close> clause shared by the three gateway methods: a 403 whose text
  contains \<open>quotaExceeded\<close> becomes \<open>QuotaExceededError\<close>, any other \<open>HttpError\<close> is
  re-raised, and an exception that is not an \<open>HttpError\<close> is not caught at all.
\<close>

definition raised_by :: "'a outcome \<Rightarrow> exn" where
  "raised_by out =
     (case out of
        HttpError status text \<Rightarrow>
          (if quota_exceeded_signal status text then QuotaExceededError DailyLimitExceeded
           else HttpErrorExn status text)
      | OtherError msg \<Rightarrow> OtherException msg
      | Response r \<Rightarrow> OtherException [])"

definition charge :: "YouTubeAPIClient \<Rightarrow> string \<Rightarrow> YouTubeAPIClient" where
  "charge c operation = c\<lparr>quota_manager := record_request (quota_manager c) operation\<rparr>"

definition log_call :: "call \<Rightarrow> world \<Rightarrow> world" where
  "log_call x w = w\<lparr>trace := trace w @ [x]\<rparr>"

definition client_search_videos ::
  "service \<Rightarrow> YouTubeAPIClient \<times> world \<Rightarrow> string \<Rightarrow> int \<Rightarrow> string option \<Rightarrow> string
     \<Rightarrow> (exn + video_item element response) \<times> (YouTubeAPIClient \<times> world)" where
  "client_search_videos yt cw query max_results page_token ord =
     (if \<not> can_make_request (quota_manager (fst cw)) ''search''
      then (Inl (QuotaExceededError (InsufficientQuota (get_remaining_quota (quota_manager (fst cw))))), cw)
      else
        let cw1 = wait_for_rate_limit cw; c1 = fst cw1; w1 = snd cw1;
            request = \<lparr>part = ''snippet'', q = query, type' = ''video'',
                       maxResults = min max_results 50, pageToken = page_token, order = ord\<rparr>;
            out = search_list yt (trace w1) request;
            w2 = log_call (SearchCall request out) w1
        in case out of
             Response response \<Rightarrow> (Inr response, (charge c1 ''search'', w2))
           | _ \<Rightarrow> (Inl (raised_by out), (c1, w2)))"

definition join :: "string \<Rightarrow> string list \<Rightarrow> string" where
  "join sep xs = (case xs of [] \<Rightarrow> [] | y # ys \<Rightarrow> y @ concat (map (\<lambda>z. sep @ z) ys))"

definition client_get_video_details ::
  "service \<Rightarrow> YouTubeAPIClient \<times> world \<Rightarrow> string list
     \<Rightarrow> (exn + video_item element response) \<times> (YouTubeAPIClient \<times> world)" where
  "client_get_video_details yt cw video_ids =
     (if video_ids = [] then (Inr \<lparr>items = Some [], nextPageToken = None\<rparr>, cw)
      else if \<not> can_make_request (quota_manager (fst cw)) ''videos''
      then (Inl (QuotaExceededError (InsufficientQuota (get_remaining_quota (quota_manager (fst cw))))), cw)
      else
        let cw1 = wait_for_rate_limit cw; c1 = fst cw1; w1 = snd cw1;
            video_ids' = take 50 video_ids;
            request = \<lparr>lr_part = ''snippet,contentDetails,statistics'',
                       lr_id = join '','' video_ids'\<rparr>;
            out = videos_list yt (trace w1) request;
            w2 = log_call (VideosCall request out) w1
        in case out of
             Response response \<Rightarrow> (Inr response, (charge c1 ''videos'', w2))
           | _ \<Rightarrow> (Inl (raised_by out), (c1, w2)))"

definition client_get_channel_details ::
  "service \<Rightarrow> YouTubeAPIClient \<times> world \<Rightarrow> string list
     \<Rightarrow> (exn + channel_item element response) \<times> (YouTubeAPIClient \<times> world)" where
  "client_get_channel_details yt cw channel_ids =
     (if channel_ids = [] then (Inr \<lparr>items = Some [], nextPageToken = None\<rparr>, cw)
      else if \<not> can_make_request (quota_manager (fst cw)) ''channels''
      then (Inl (QuotaExceededError (InsufficientQuota (get_remaining_quota (quota_manager (fst cw))))), cw)
      else
        let cw1 = wait_for_rate_limit cw; c1 = fst cw1; w1 = snd cw1;
            channel_ids' = take 50 channel_ids;
            request = \<lparr>lr_part = ''snippet,statistics,contentDetails,brandingSettings'',
                       lr_id = join '','' channel_ids'\<rparr>;
            out = channels_list yt (trace w1) request;
            w2 = log_call (ChannelsCall request out) w1
        in case out of
             Response response \<Rightarrow> (Inr response, (charge c1 ''channels'', w2))
           | _ \<Rightarrow> (Inl (raised_by out), (c1, w2)))"

text \<open>The dictionary of \<open>get_quota_usage\<close>, its keys prefixed with \<open>qu_\<close>.\<close>

record quota_usage =
  qu_used :: int
  qu_limit :: int
  qu_remaining :: int
  qu_requests :: int

definition get_quota_usage :: "YouTubeAPIClient \<Rightarrow> quota_usage" where
  "get_quota_usage c =
     \<lparr>qu_used = used_quota (quota_manager c),
      qu_limit = daily_limit (quota_manager c),
      qu_remaining = get_remaining_quota (quota_manager c),
      qu_requests = request_count (quota_manager c)\<rparr>"

section \<open>The pagination driver (video\_extractor.py)\<close>

record video_record =
  videoId :: string
  title :: string
  description :: string
  publishedAt :: string
  channelTitle :: string
  channelId :: string

text \<open>
  \<open>extract_video_data\<close> reads \<open>snippet\<close> and \<open>id\<close> off the item, which raises when the
  item is not a dictionary, and then reads five keys off \<open>snippet\<close>, which raises when
  \<open>snippet\<close> is \<open>null\<close>. An \<open>id\<close> that is absent or \<open>null\<close> (\<open>None\<close> for
  \<open>vi_id\<close>) gives a falsy \<open>videoId\<close>, written as the empty string.
\<close>

definition extract_video_data :: "video_item element \<Rightarrow> exn + video_record" where
  "extract_video_data video_item =
     (case video_item of
        NotDict \<Rightarrow> Inl (AttributeError ''get'')
      | Dict item \<Rightarrow>
          (let video_id = (case vi_id item of
                             None \<Rightarrow> dict_get [] ''videoId'' []
                           | Some (IdDict d) \<Rightarrow> dict_get d ''videoId'' []
                           | Some (IdStr s) \<Rightarrow> s)
           in case vi_snippet item of
                JsonNull \<Rightarrow> Inl (AttributeError ''get'')
              | Absent \<Rightarrow>
                  Inr \<lparr>videoId = video_id,
                       title = dict_get [] ''title'' [],
                       description = dict_get [] ''description'' [],
                       publishedAt = dict_get [] ''publishedAt'' [],
                       channelTitle = dict_get [] ''channelTitle'' [],
                       channelId = dict_get [] ''channelId'' []\<rparr>
              | Present snippet \<Rightarrow>
                  Inr \<lparr>videoId = video_id,
                       title = dict_get snippet ''title'' [],
                       description = dict_get snippet ''description'' [],
                       publishedAt = dict_get snippet ''publishedAt'' [],
                       channelTitle = dict_get snippet ''channelTitle'' [],
                       channelId = dict_get snippet ''channelId'' []\<rparr>))"

text \<open>
  The loop \<open>for item in items\<close>: a record is appended when its \<open>videoId\<close> is truthy; an
  exception of \<open>extract_video_data\<close> ends the loop, and the records appended before it
  stay in the list.
\<close>

fun add_items ::
  "video_record list \<Rightarrow> video_item element list \<Rightarrow> exn option \<times> video_record list" where
  "add_items videos [] = (None, videos)"
| "add_items videos (item # rest) =
     (case extract_video_data item of
        Inl e \<Rightarrow> (Some e, videos)
      | Inr vd \<Rightarrow> add_items (if videoId vd \<noteq> [] then videos @ [vd] else videos) rest)"

text \<open>\<open>xs[:n]\<close>: a negative bound counts from the end.\<close>

definition slice_upto :: "'a list \<Rightarrow> int \<Rightarrow> 'a list" where
  "slice_upto xs n =
     (if 0 \<le> n then take (nat n) xs else take (length xs - nat (- n)) xs)"

text \<open>
  How the \<open>while\<close> loop of \<open>search_videos\<close> is left: by \<open>break\<close> or a false loop
  condition (\<open>Completed\<close>), or by an exception that the outer \<open>except Exception\<close> catches,
  raised by the gateway or while the items of a page are normalised.
\<close>

datatype loop_exit = Completed | Raised exn

definition videos_per_page :: int where
  "videos_per_page = 50"

function search_videos_loop ::
  "service \<Rightarrow> YouTubeAPIClient \<times> world \<Rightarrow> string \<Rightarrow> int \<Rightarrow> string
     \<Rightarrow> video_record list \<Rightarrow> string option
     \<Rightarrow> loop_exit \<times> video_record list \<times> (YouTubeAPIClient \<times> world)" where
  "search_videos_loop yt cw query max_videos ord videos page_token =
     (if int (length videos) < max_videos then
        (let remaining = max_videos - int (length videos);
             results_to_request = min videos_per_page remaining
         in if \<not> can_make_request (quota_manager (fst cw)) ''search''
            then (Completed, videos, cw)
            else
              (case client_search_videos yt cw query results_to_request page_token ord of
                 (Inl (QuotaExceededError e), cw') \<Rightarrow> (Completed, videos, cw')
               | (Inl e, cw') \<Rightarrow> (Raised e, videos, cw')
               | (Inr response, cw') \<Rightarrow>
                   (let its = (case items response of Some xs \<Rightarrow> xs | None \<Rightarrow> []) in
                    if its = [] then (Completed, videos, cw')
                    else
                      (case add_items videos its of
                         (Some e, videos') \<Rightarrow> (Raised e, videos', cw')
                       | (None, videos') \<Rightarrow>
                           (let page_token' = nextPageToken response
                            in if page_token' = None \<or> page_token' = Some []
                               then (Completed, videos', cw')
                               else search_videos_loop yt (fst cw', sleep (1 / 2) (snd cw'))
                                      query max_videos ord videos' page_token')))))
      else (Completed, videos, cw))"
  by pat_completeness auto

text \<open>
  The loop ends: an iteration that goes round again has made a successful search call, which
  charged 100 units against a budget that the pre-check found sufficient.
\<close>

lemma client_search_videos_Inr:
  assumes "client_search_videos yt cw query n tok ord = (Inr r, cw')"
  shows "can_make_request (quota_manager (fst cw)) ''search''
       \<and> quota_manager (fst cw') = record_request (quota_manager (fst cw)) ''search''"
  using assms
  by (auto simp: client_search_videos_def Let_def wait_for_rate_limit_def charge_def
      split: if_splits outcome.splits)

termination search_videos_loop
  apply (relation "measure (\<lambda>(yt, cw, query, max_videos, ord, videos, page_token).
          nat (daily_limit (quota_manager (fst cw)) - used_quota (quota_manager (fst cw))))")
  subgoal by simp
  subgoal premises prems for yt cw query max_videos ord videos page_token x xa xb y b
  proof -
    from prems have "client_search_videos yt cw query xa page_token ord = (Inr b, y)"
      by (metis (no_types))
    from client_search_videos_Inr [OF this] show ?thesis
      by (simp add: can_make_request_def record_request_def cost_of_def COSTS_def)
  qed
  done

declare search_videos_loop.simps [simp del]

text \<open>
  The \<open>try\<close> block of \<open>search_videos\<close> entered with the loop variables \<open>videos\<close> and
  \<open>page_token\<close>: after the loop the list is cut to \<open>max_videos\<close>; the handler of
  \<open>except Exception\<close> returns the list as it stands. \<open>search_videos\<close> itself starts the
  loop with no videos and no page token.
\<close>

definition search_videos_from ::
  "service \<Rightarrow> YouTubeAPIClient \<times> world \<Rightarrow> string \<Rightarrow> int \<Rightarrow> string
     \<Rightarrow> video_record list \<Rightarrow> string option
     \<Rightarrow> video_record list \<times> (YouTubeAPIClient \<times> world)" where
  "search_videos_from yt cw query max_videos ord videos page_token =
     (case search_videos_loop yt cw query max_videos ord videos page_token of
        (Completed, videos', cw') \<Rightarrow> (slice_upto videos' max_videos, cw')
      | (Raised e, videos', cw') \<Rightarrow> (videos', cw'))"

definition search_videos ::
  "service \<Rightarrow> YouTubeAPIClient \<times> world \<Rightarrow> string \<Rightarrow> int \<Rightarrow> string
     \<Rightarrow> video_record list \<times> (YouTubeAPIClient \<times> world)" where
  "search_videos yt cw query max_videos ord =
     search_videos_from yt cw query max_videos ord [] None"

section \<open>The channel pass (channel\_extractor.py)\<close>

text \<open>
  \<open>str.strip()\<close> removes leading and trailing whitespace. Strings are lists of bytes
  here, and the whitespace removed is that of ASCII: tab, line feed, vertical tab, form
  feed, carriage return, the four separators 28 to 31 and the space. The whitespace beyond
  ASCII that Python also strips (U+0085, U+00A0 and others) is not modelled; channel ids are
  ASCII.
\<close>

definition is_space :: "char \<Rightarrow> bool" where
  "is_space c = ((of_char c :: nat) \<in> {9, 10, 11, 12, 13, 28, 29, 30, 31, 32})"

definition strip :: "string \<Rightarrow> string" where
  "strip s = rev (dropWhile is_space (rev (dropWhile is_space s)))"

text \<open>The fields of a channel record carry the prefix \<open>ch_\<close>.\<close>

record channel_record =
  ch_channelId :: string
  ch_title :: string
  ch_description :: string
  ch_publishedAt :: string
  ch_country :: string
  ch_customUrl :: string
  ch_viewCount :: string
  ch_subscriberCount :: string
  ch_videoCount :: string
  ch_hiddenSubscriberCount :: string
  ch_channelUrl :: string

definition add_channel_id :: "string set \<Rightarrow> video_record \<Rightarrow> string set" where
  "add_channel_id channel_ids video =
     (let channel_id = strip (channelId video) in
      if channel_id \<noteq> [] then insert channel_id channel_ids else channel_ids)"

definition extract_unique_channel_ids :: "video_record list \<Rightarrow> string list" where
  "extract_unique_channel_ids video_data =
     sorted_list_of_set (foldl add_channel_id {} video_data)"

definition str_bool :: "bool \<Rightarrow> string" where
  "str_bool b = (if b then ''True'' else ''False'')"

definition opt_get :: "'a option \<Rightarrow> 'a \<Rightarrow> 'a" where
  "opt_get v dflt = (case v of Some x \<Rightarrow> x | None \<Rightarrow> dflt)"

text \<open>
  \<open>extract_channel_data\<close> reads \<open>snippet\<close>, \<open>statistics\<close> and \<open>brandingSettings\<close> off
  the item (which raises when the item is not a dictionary), reads \<open>channel\<close> off
  \<open>brandingSettings\<close> (a value it never uses), and then reads the keys of \<open>snippet\<close> and
  \<open>statistics\<close>; each read raises when its dictionary is \<open>null\<close>.
\<close>

definition extract_channel_data :: "channel_item element \<Rightarrow> exn + channel_record" where
  "extract_channel_data channel_item =
     (case channel_item of
        NotDict \<Rightarrow> Inl (AttributeError ''get'')
      | Dict item \<Rightarrow>
          (if ci_brandingSettings item = JsonNull \<or> ci_snippet item = JsonNull
               \<or> ci_statistics item = JsonNull
           then Inl (AttributeError ''get'')
           else
             (let snippet = (case ci_snippet item of Present d \<Rightarrow> d | _ \<Rightarrow> []);
                  stats = (case ci_statistics item of
                             Present st \<Rightarrow> st
                           | _ \<Rightarrow> \<lparr>st_viewCount = None, st_subscriberCount = None,
                                   st_videoCount = None, st_hiddenSubscriberCount = None\<rparr>);
                  channel_id = opt_get (ci_id item) [];
                  channel_url = (if channel_id \<noteq> []
                                 then ''https://www.youtube.com/channel/'' @ channel_id else [])
              in Inr \<lparr>ch_channelId = channel_id,
                      ch_title = dict_get snippet ''title'' [],
                      ch_description = dict_get snippet ''description'' [],
                      ch_publishedAt = dict_get snippet ''publishedAt'' [],
                      ch_country = dict_get snippet ''country'' [],
                      ch_customUrl = dict_get snippet ''customUrl'' [],
                      ch_viewCount = opt_get (st_viewCount stats) ''0'',
                      ch_subscriberCount = opt_get (st_subscriberCount stats) ''0'',
                      ch_videoCount = opt_get (st_videoCount stats) ''0'',
                      ch_hiddenSubscriberCount =
                        str_bool (opt_get (st_hiddenSubscriberCount stats) False),
                      ch_channelUrl = channel_url\<rparr>)))"

definition batch_size :: nat where
  "batch_size = 50"

text \<open>
  The loop \<open>for item in items\<close> of the channel pass: every record is appended; an exception
  of \<open>extract_channel_data\<close> ends the loop and the records appended before it stay.
\<close>

fun add_channels ::
  "channel_record list \<Rightarrow> channel_item element list \<Rightarrow> exn option \<times> channel_record list" where
  "add_channels channels [] = (None, channels)"
| "add_channels channels (item # rest) =
     (case extract_channel_data item of
        Inl e \<Rightarrow> (Some e, channels)
      | Inr channel_data \<Rightarrow> add_channels (channels @ [channel_data]) rest)"

text \<open>
  The \<open>try\<close> block for one batch: the exception raised, if any, with the list and the
  state at that point. The pause between batches is reached only when nothing was raised.
\<close>

definition channel_batch_try ::
  "service \<Rightarrow> YouTubeAPIClient \<times> world \<Rightarrow> string list \<Rightarrow> nat \<Rightarrow> channel_record list
     \<Rightarrow> exn option \<times> channel_record list \<times> (YouTubeAPIClient \<times> world)" where
  "channel_batch_try yt cw channel_ids i channels =
     (let batch = take batch_size (drop i channel_ids) in
      case client_get_channel_details yt cw batch of
        (Inl e, cw') \<Rightarrow> (Some e, channels, cw')
      | (Inr response, cw') \<Rightarrow>
          (let its = (case items response of Some xs \<Rightarrow> xs | None \<Rightarrow> []) in
           case add_channels channels its of
             (Some e, channels') \<Rightarrow> (Some e, channels', cw')
           | (None, channels') \<Rightarrow>
               (None, channels',
                if i + batch_size < length channel_ids
                then (fst cw', sleep (1 / 2) (snd cw')) else cw')))"

text \<open>
  The loop \<open>for i in range(0, len(channel_ids), batch_size)\<close>, entered with the index
  \<open>i\<close> and the list \<open>channels\<close>: \<open>break\<close> on a refused budget or a
  \<open>QuotaExceededError\<close>, \<open>continue\<close> on any other exception.
\<close>

function channel_batches_loop ::
  "service \<Rightarrow> YouTubeAPIClient \<times> world \<Rightarrow> string list \<Rightarrow> nat
     \<Rightarrow> channel_record list \<Rightarrow> channel_record list \<times> (YouTubeAPIClient \<times> world)" where
  "channel_batches_loop yt cw channel_ids i channels =
     (if i < length channel_ids then
        (if \<not> can_make_request (quota_manager (fst cw)) ''channels''
         then (channels, cw)
         else
           (case channel_batch_try yt cw channel_ids i channels of
              (None, channels', cw') \<Rightarrow>
                channel_batches_loop yt cw' channel_ids (i + batch_size) channels'
            | (Some (QuotaExceededError m), channels', cw') \<Rightarrow> (channels', cw')
            | (Some e, channels', cw') \<Rightarrow>
                channel_batches_loop yt cw' channel_ids (i + batch_size) channels'))
      else (channels, cw))"
  by pat_completeness auto

termination channel_batches_loop
  by (relation "measure (\<lambda>(yt, cw, channel_ids, i, channels). length channel_ids - i)")
    (auto simp: batch_size_def)

declare channel_batches_loop.simps [simp del]

definition get_channel_details ::
  "service \<Rightarrow> YouTubeAPIClient \<times> world \<Rightarrow> string list
     \<Rightarrow> channel_record list \<times> (YouTubeAPIClient \<times> world)" where
  "get_channel_details yt cw channel_ids =
     (if channel_ids = [] then ([], cw)
      else channel_batches_loop yt cw channel_ids 0 [])"

text \<open>A dictionary from queries to their videos keeps its keys in insertion order.\<close>

type_synonym video_dict = "(string \<times> video_record list) list"

definition get_channels_for_multiple_queries ::
  "service \<Rightarrow> YouTubeAPIClient \<times> world \<Rightarrow> video_dict
     \<Rightarrow> channel_record list \<times> (YouTubeAPIClient \<times> world)" where
  "get_channels_for_multiple_queries yt cw query_video_data =
     (let all_channel_ids =
            foldl (\<lambda>ids entry. foldl add_channel_id ids (snd entry)) {} query_video_data;
          unique_channel_ids = sorted_list_of_set all_channel_ids
      in get_channel_details yt cw unique_channel_ids)"

section \<open>Checkpoints and the campaign (main.py)\<close>

text \<open>
  The checkpoint dictionary. A file written by an older run may lack a key, which
  \<open>.get(key, default)\<close> reads as the default. \<open>last_updated\<close> is the clock reading
  that \<open>datetime.now().isoformat()\<close> prints.
\<close>

record checkpoint =
  completed_queries :: "string list option"
  video_data :: "video_dict option"
  last_updated :: "real option"

definition SEARCH_PHRASES :: "string list" where
  "SEARCH_PHRASES =
     [''Beethoven Symphony'', ''Handel Messiah'', ''Mozart Requiem'',
      ''Mozart Coronation Mass'', ''Bach St Matthew Passion'', ''Bach St John Passion'',
      ''Brahms A German Requiem'', ''Haydn The Creation'', ''Haydn The Seasons'',
      ''Faure Requiem'', ''Faure Cantique de Jean Racine'', ''Vivaldi Gloria'',
      ''Bach Magnificat'', ''Mendelssohn Elijah'', ''Schubert Mass'',
      ''Beethoven Missa Solemnis'', ''Mozart Ave Verum'']"

definition VIDEOS_PER_QUERY :: int where
  "VIDEOS_PER_QUERY = 2000"

definition PROGRESS_FILE :: string where
  "PROGRESS_FILE = ''extraction_progress.json''"

text \<open>\<open>d[k] = v\<close> on a dictionary: an existing key keeps its place, a new key goes last.\<close>

fun dict_set :: "('k \<times> 'v) list \<Rightarrow> 'k \<Rightarrow> 'v \<Rightarrow> ('k \<times> 'v) list" where
  "dict_set [] k v = [(k, v)]"
| "dict_set (p # ps) k v = (if fst p = k then (k, v) # ps else p # dict_set ps k v)"

text \<open>
  Writing a file as the operating system sees it. \<open>open(path, 'w')\<close> truncates the file
  at \<open>path\<close>; \<open>json.dump(obj, f)\<close> then writes the encoding piece by piece
  (\<open>for chunk in iterable: fp.write(chunk)\<close>). The encoder is the standard library's and
  is a parameter: \<open>dump obj\<close> is the list of pieces, \<open>load text\<close> the decoded file or
  \<open>None\<close> when decoding raises.
\<close>

datatype file_op = Truncate string | Append string string

fun apply_file_op :: "(string \<times> string) list \<Rightarrow> file_op \<Rightarrow> (string \<times> string) list" where
  "apply_file_op fs (Truncate path) = dict_set fs path []"
| "apply_file_op fs (Append path chunk) = dict_set fs path (opt_get (map_of fs path) [] @ chunk)"

definition write_ops :: "string \<Rightarrow> string list \<Rightarrow> file_op list" where
  "write_ops path chunks = Truncate path # map (Append path) chunks"

text \<open>
  The \<open>with open(path, 'w') as f: json.dump(obj, f)\<close> statement run to its end: an
  \<open>IOError\<close> when the path cannot be opened for writing, the rewritten file otherwise.
\<close>

definition write_json :: "world \<Rightarrow> string \<Rightarrow> string list \<Rightarrow> exn + world" where
  "write_json w path chunks =
     (if path \<in> set (unwritable w) then Inl (IOError path)
      else Inr (w\<lparr>files := foldl apply_file_op (files w) (write_ops path chunks)\<rparr>))"

text \<open>
  The tracker of \<open>main.py\<close>. \<open>load_progress_from\<close> is its method
  \<open>_load_progress\<close> (and \<open>load_progress\<close> of \<open>api.py\<close>): a missing file, or one that
  cannot be decoded, gives the fresh checkpoint. \<open>save_progress\<close> logs a failed write and
  carries on.
\<close>

record ProgressTracker =
  progress_file :: string
  progress :: checkpoint

definition load_progress_from ::
  "(string \<Rightarrow> checkpoint option) \<Rightarrow> world \<Rightarrow> string \<Rightarrow> checkpoint" where
  "load_progress_from load w path =
     (let fresh = \<lparr>completed_queries = Some [], video_data = Some [], last_updated = None\<rparr> in
      case map_of (files w) path of
        Some text \<Rightarrow> (case load text of Some p \<Rightarrow> p | None \<Rightarrow> fresh)
      | None \<Rightarrow> fresh)"

definition ProgressTracker_init ::
  "(string \<Rightarrow> checkpoint option) \<Rightarrow> world \<Rightarrow> string \<Rightarrow> ProgressTracker" where
  "ProgressTracker_init load w path =
     \<lparr>progress_file = path, progress = load_progress_from load w path\<rparr>"

definition save_progress ::
  "(checkpoint \<Rightarrow> string list) \<Rightarrow> ProgressTracker \<Rightarrow> world \<Rightarrow> string list \<Rightarrow> video_dict
     \<Rightarrow> ProgressTracker \<times> world" where
  "save_progress dump t w completed video_data' =
     (let p = \<lparr>completed_queries = Some completed, video_data = Some video_data',
               last_updated = Some (clock w)\<rparr>;
          t' = t\<lparr>progress := p\<rparr>
      in case write_json w (progress_file t') (dump p) of
           Inr w' \<Rightarrow> (t', w')
         | Inl e \<Rightarrow> (t', w))"

definition get_remaining_queries :: "ProgressTracker \<Rightarrow> string list \<Rightarrow> string list" where
  "get_remaining_queries t all_queries =
     (let completed = set (opt_get (completed_queries (progress t)) []) in
      filter (\<lambda>q. q \<notin> completed) all_queries)"

definition get_completed_data :: "ProgressTracker \<Rightarrow> video_dict" where
  "get_completed_data t = opt_get (video_data (progress t)) []"

text \<open>
  The loop \<open>for i, query in enumerate(remaining_queries, 1)\<close> of \<open>main\<close>. Nothing in its
  body raises an \<open>Exception\<close>: \<open>search_videos\<close> and \<open>save_progress\<close> catch their own.
\<close>

fun main_query_loop ::
  "service \<Rightarrow> (checkpoint \<Rightarrow> string list) \<Rightarrow> YouTubeAPIClient \<times> world \<Rightarrow> ProgressTracker
     \<Rightarrow> video_dict \<Rightarrow> string list
     \<Rightarrow> (YouTubeAPIClient \<times> world) \<times> ProgressTracker \<times> video_dict" where
  "main_query_loop yt dump cw t all_video_data [] = (cw, t, all_video_data)"
| "main_query_loop yt dump cw t all_video_data (query # rest) =
     (let quota_info = get_quota_usage (fst cw) in
      if qu_remaining quota_info < 4000 then (cw, t, all_video_data)
      else
        (case search_videos yt cw query VIDEOS_PER_QUERY ''date'' of
           (videos, cw') \<Rightarrow>
             (let all_video_data' = dict_set all_video_data query videos;
                  completed = map fst all_video_data'
              in case save_progress dump t (snd cw') completed all_video_data' of
                   (t', w') \<Rightarrow>
                     main_query_loop yt dump (fst cw', w') t' all_video_data' rest)))"

text \<open>
  Phase 1 of \<open>main\<close> for a list of phrases (\<open>main\<close> itself passes \<open>SEARCH_PHRASES\<close>):
  the data of the checkpoint is copied and the remaining queries are run in order.
\<close>

definition main_video_phase ::
  "service \<Rightarrow> (checkpoint \<Rightarrow> string list) \<Rightarrow> YouTubeAPIClient \<times> world \<Rightarrow> ProgressTracker
     \<Rightarrow> string list \<Rightarrow> (YouTubeAPIClient \<times> world) \<times> ProgressTracker \<times> video_dict" where
  "main_video_phase yt dump cw t phrases =
     (let completed_data = get_completed_data t;
          remaining_queries = get_remaining_queries t phrases;
          all_video_data = completed_data
      in if remaining_queries \<noteq> []
         then main_query_loop yt dump cw t all_video_data remaining_queries
         else (cw, t, all_video_data))"

text \<open>
  The disk when the process is killed after \<open>k\<close> of the file operations of the
  \<open>with open(path, 'w')\<close> statement (none for \<open>k = 0\<close>, all of them for
  \<open>k\<close> above the number of pieces). The file object may hold pieces back in its
  buffer, so a real run passes through some of these states only: the old text, the empty
  file, some of the prefixes, and the complete text once the file is closed.
\<close>

definition write_json_killed :: "world \<Rightarrow> string \<Rightarrow> string list \<Rightarrow> nat \<Rightarrow> world" where
  "write_json_killed w path chunks k =
     w\<lparr>files := foldl apply_file_op (files w) (take k (write_ops path chunks))\<rparr>"

text \<open>
  The checkpoint that \<open>save_progress\<close> builds, and \<open>save_progress\<close> with the process
  killed after \<open>k\<close> file operations of its write.
\<close>

definition checkpoint_at :: "world \<Rightarrow> string list \<Rightarrow> video_dict \<Rightarrow> checkpoint" where
  "checkpoint_at w completed video_data' =
     \<lparr>completed_queries = Some completed, video_data = Some video_data',
      last_updated = Some (clock w)\<rparr>"

definition save_progress_killed ::
  "(checkpoint \<Rightarrow> string list) \<Rightarrow> ProgressTracker \<Rightarrow> world \<Rightarrow> string list \<Rightarrow> video_dict
     \<Rightarrow> nat \<Rightarrow> world" where
  "save_progress_killed dump t w completed video_data' k =
     write_json_killed w (progress_file t) (dump (checkpoint_at w completed video_data')) k"

section \<open>The campaign of the web service (api.py, run\_extraction\_task)\<close>

text \<open>
  The entries that the task appends to the \<open>errors\<close> list of the status, one constructor
  for each message text.
\<close>

datatype status_error =
    InsufficientQuotaRemaining
  | QuotaExceededNotice exn
  | ExtractedBeforeLimit nat
  | QuotaResetsAtMidnight
  | ResumeTip
  | QueryError string exn
  | FatalError exn

text \<open>
  The global dictionary \<open>extraction_status\<close>. Its key \<open>progress\<close>, a percentage computed
  in floating point for display, is left out; \<open>completed_queries\<close> and \<open>last_updated\<close>
  carry the prefix \<open>es_\<close>.
\<close>

record extraction_status =
  is_running :: bool
  current_query :: "string option"
  total_queries :: int
  es_completed_queries :: "string list"
  videos_collected :: int
  channels_collected :: int
  quota_used :: int
  quota_limit :: int
  quota_exceeded :: bool
  errors :: "status_error list"
  started_at :: "real option"
  es_last_updated :: "real option"

definition update_status ::
  "(extraction_status \<Rightarrow> extraction_status) \<Rightarrow> extraction_status \<Rightarrow> world \<Rightarrow> extraction_status" where
  "update_status update_dict st w = (update_dict st)\<lparr>es_last_updated := Some (clock w)\<rparr>"

text \<open>
  The state that the loop of the task works on, and the body of its \<open>try\<close> block for one
  query: the exception raised, if any, with the state at that point. Only the rewrite of
  the progress file can raise here; \<open>search_videos\<close> catches every \<open>Exception\<close> itself.
\<close>

type_synonym task_state = "(YouTubeAPIClient \<times> world) \<times> extraction_status \<times> video_dict"

definition task_try_query ::
  "service \<Rightarrow> (checkpoint \<Rightarrow> string list) \<Rightarrow> task_state \<Rightarrow> string \<Rightarrow> int
     \<Rightarrow> exn option \<times> task_state" where
  "task_try_query yt dump s query videos_per_query =
     (case s of (cw, st, all_video_data) \<Rightarrow>
      (case search_videos yt cw query videos_per_query ''date'' of
         (videos, cw1) \<Rightarrow>
           (let all_video_data' = dict_set all_video_data query videos;
                st1 = update_status
                        (\<lambda>d. d\<lparr>es_completed_queries := map fst all_video_data',
                               videos_collected :=
                                 sum_list (map (\<lambda>e. int (length (snd e))) all_video_data')\<rparr>)
                        st (snd cw1)
            in case write_json (snd cw1) ''extraction_progress.json''
                      (dump \<lparr>completed_queries = Some (map fst all_video_data'),
                             video_data = Some all_video_data',
                             last_updated = Some (clock (snd cw1))\<rparr>) of
                 Inl e \<Rightarrow> (Some e, (cw1, st1, all_video_data'))
               | Inr w2 \<Rightarrow> (None, ((fst cw1, sleep (1 / 10) w2), st1, all_video_data')))))"

fun task_query_loop ::
  "service \<Rightarrow> (checkpoint \<Rightarrow> string list) \<Rightarrow> task_state \<Rightarrow> int \<Rightarrow> string list \<Rightarrow> task_state" where
  "task_query_loop yt dump s videos_per_query [] = s"
| "task_query_loop yt dump s videos_per_query (query # rest) =
     (case s of (cw, st, all_video_data) \<Rightarrow>
      (let st1 = update_status (\<lambda>d. d\<lparr>current_query := Some query\<rparr>) st (snd cw);
           quota_info = get_quota_usage (fst cw);
           st2 = update_status (\<lambda>d. d\<lparr>quota_used := qu_used quota_info\<rparr>) st1 (snd cw)
       in if qu_remaining quota_info < 4000
          then (cw, update_status (\<lambda>d. d\<lparr>errors := errors d @ [InsufficientQuotaRemaining]\<rparr>)
                      st2 (snd cw), all_video_data)
          else
            (case task_try_query yt dump (cw, st2, all_video_data) query videos_per_query of
               (None, s') \<Rightarrow> task_query_loop yt dump s' videos_per_query rest
             | (Some (QuotaExceededError m), (cw', st', all_video_data')) \<Rightarrow>
                 (cw',
                  update_status
                    (\<lambda>d. d\<lparr>is_running := False, quota_exceeded := True,
                           errors := errors d @
                             [QuotaExceededNotice (QuotaExceededError m),
                              ExtractedBeforeLimit (length all_video_data'),
                              QuotaResetsAtMidnight, ResumeTip]\<rparr>)
                    st' (snd cw'),
                  all_video_data')
             | (Some e, (cw', st', all_video_data')) \<Rightarrow>
                 task_query_loop yt dump
                   (cw', update_status (\<lambda>d. d\<lparr>errors := errors d @ [QueryError query e]\<rparr>)
                           st' (snd cw'),
                    all_video_data')
                   videos_per_query rest)))"

text \<open>
  The task up to the end of its query loop, for a client already built:
  \<open>config.queries or SEARCH_PHRASES\<close>, the progress file read, the completed queries
  filtered out.
\<close>

definition task_video_phase ::
  "service \<Rightarrow> (checkpoint \<Rightarrow> string list) \<Rightarrow> (string \<Rightarrow> checkpoint option)
     \<Rightarrow> YouTubeAPIClient \<times> world \<Rightarrow> extraction_status \<Rightarrow> string list option \<Rightarrow> int
     \<Rightarrow> task_state" where
  "task_video_phase yt dump load cw st config_queries videos_per_query =
     (let queries = (case config_queries of
                       Some qs \<Rightarrow> if qs \<noteq> [] then qs else SEARCH_PHRASES
                     | None \<Rightarrow> SEARCH_PHRASES);
          st0 = update_status
                  (\<lambda>d. d\<lparr>is_running := True, started_at := Some (clock (snd cw)),
                         total_queries := int (length queries), errors := []\<rparr>)
                  st (snd cw);
          loaded = load_progress_from load (snd cw) ''extraction_progress.json'';
          completed = set (opt_get (completed_queries loaded) []);
          all_video_data = opt_get (video_data loaded) [];
          remaining_queries = filter (\<lambda>query. query \<notin> completed) queries
      in task_query_loop yt dump (cw, st0, all_video_data) videos_per_query remaining_queries)"

section \<open>Observing a run\<close>

text \<open>
  The calls that a run added to the conversation, whether a call was answered with a
  response, and the query of a search call.
\<close>

definition new_calls :: "world \<Rightarrow> world \<Rightarrow> call list" where
  "new_calls w w' = drop (length (trace w)) (trace w')"


fun call_query :: "call \<Rightarrow> string option" where
  "call_query (SearchCall req out) = Some (q req)"
| "call_query (VideosCall req out) = None"
| "call_query (ChannelsCall req out) = None"

definition calls_for :: "string \<Rightarrow> call list \<Rightarrow> bool" where
  "calls_for query cs = list_all (\<lambda>x. call_query x = Some query) cs"

section \<open>Fixtures: a world, a client and scripted services\<close>

definition world0 :: world where
  "world0 = \<lparr>clock = 0, slept = [], trace = [], files = [], unwritable = []\<rparr>"

text \<open>The client that \<open>YouTubeAPIClient(api_key, daily_quota)\<close> builds when a key is given.\<close>

definition new_client :: "int \<Rightarrow> YouTubeAPIClient" where
  "new_client daily_quota =
     \<lparr>quota_manager = QuotaManager_init daily_quota,
      min_request_interval = 1, last_request_time = 0\<rparr>"

text \<open>
  A scripted service answers its n-th call (counting every endpoint) with the n-th outcome
  of the script of the endpoint called, and fails once the script is used up.
\<close>

definition scripted_answer :: "'a outcome list \<Rightarrow> call list \<Rightarrow> 'a outcome" where
  "scripted_answer script history =
     (if length history < length script then script ! length history
      else OtherError ''script exhausted'')"

definition scripted ::
  "video_item element response outcome list \<Rightarrow> channel_item element response outcome list \<Rightarrow> service" where
  "scripted searches channels =
     \<lparr>search_list = (\<lambda>history request. scripted_answer searches history),
      videos_list = (\<lambda>history request. OtherError ''not scripted''),
      channels_list = (\<lambda>history request. scripted_answer channels history)\<rparr>"

definition search_hit :: "string \<Rightarrow> string \<Rightarrow> video_item element" where
  "search_hit vid channel =
     Dict \<lparr>vi_id = Some (IdDict [(''kind'', ''youtube#video''), (''videoId'', vid)]),
           vi_snippet = Present [(''title'', ''T''), (''channelId'', channel)]\<rparr>"

definition no_id_hit :: "video_item element" where
  "no_id_hit = Dict \<lparr>vi_id = Some (IdDict [(''kind'', ''youtube#channel'')]),
                     vi_snippet = Present [(''title'', ''T'')]\<rparr>"

text \<open>A search result whose \<open>snippet\<close> is \<open>null\<close>.\<close>

definition null_snippet_hit :: "string \<Rightarrow> video_item element" where
  "null_snippet_hit vid =
     Dict \<lparr>vi_id = Some (IdDict [(''kind'', ''youtube#video''), (''videoId'', vid)]),
           vi_snippet = JsonNull\<rparr>"

text \<open>The record that \<open>extract_video_data\<close> makes of \<open>search_hit vid channel\<close>.\<close>

definition video_of :: "string \<Rightarrow> string \<Rightarrow> video_record" where
  "video_of vid channel =
     \<lparr>videoId = vid, title = ''T'', description = [], publishedAt = [],
      channelTitle = [], channelId = channel\<rparr>"

definition channel_hit :: "string \<Rightarrow> channel_item element" where
  "channel_hit cid =
     Dict \<lparr>ci_id = Some cid, ci_snippet = Absent, ci_statistics = Absent,
           ci_brandingSettings = Absent\<rparr>"

definition quota_refusal :: "'a outcome" where
  "quota_refusal = HttpError 403 ''quotaExceeded''"

text \<open>A stand-in for the JSON encoder: the pieces written for a checkpoint.\<close>

definition toy_dump :: "checkpoint \<Rightarrow> string list" where
  "toy_dump p = ''{'' # map (\<lambda>query. query @ '';'') (opt_get (completed_queries p) []) @ [''}'']"

definition fresh_tracker :: ProgressTracker where
  "fresh_tracker =
     \<lparr>progress_file = PROGRESS_FILE,
      progress = \<lparr>completed_queries = Some [], video_data = Some [], last_updated = None\<rparr>\<rparr>"

definition resumed_tracker :: ProgressTracker where
  "resumed_tracker =
     \<lparr>progress_file = PROGRESS_FILE,
      progress = \<lparr>completed_queries = Some [''Bach Magnificat''],
                  video_data = Some [(''Bach Magnificat'', [])], last_updated = None\<rparr>\<rparr>"

definition world_with_checkpoint :: world where
  "world_with_checkpoint = world0\<lparr>files := [(PROGRESS_FILE, ''{}'')]\<rparr>"

definition idle_status :: extraction_status where
  "idle_status =
     \<lparr>is_running = False, current_query = None, total_queries = 0, es_completed_queries = [],
      videos_collected = 0, channels_collected = 0, quota_used = 0, quota_limit = 10000,
      quota_exceeded = False, errors = [], started_at = None, es_last_updated = None\<rparr>"

section \<open>Properties of the quota ledger\<close>

lemma cost_of_search [simp]: "cost_of ''search'' = 100"
  by (simp add: cost_of_def COSTS_def)

lemma cost_of_videos [simp]: "cost_of ''videos'' = 1"
  by (simp add: cost_of_def COSTS_def)

lemma cost_of_channels [simp]: "cost_of ''channels'' = 1"
  by (simp add: cost_of_def COSTS_def)

lemma foldl_record_request:
  "foldl record_request qm ops =
     qm\<lparr>used_quota := used_quota qm + sum_list (map cost_of ops),
        request_count := request_count qm + int (length ops)\<rparr>"
proof (induction ops arbitrary: qm)
  case Nil
  show ?case by simp
next
  case (Cons x xs)
  have "foldl record_request qm (x # xs) = foldl record_request (record_request qm x) xs"
    by simp
  also have "\<dots> = (record_request qm x)
      \<lparr>used_quota := used_quota (record_request qm x) + sum_list (map cost_of xs),
       request_count := request_count (record_request qm x) + int (length xs)\<rparr>"
    by (rule Cons.IH)
  also have "\<dots> = qm\<lparr>used_quota := used_quota qm + sum_list (map cost_of (x # xs)),
        request_count := request_count qm + int (length (x # xs))\<rparr>"
    by (simp add: record_request_def add.assoc)
  finally show ?case .
qed

text \<open>
  C2. On a freshly created ledger, after any sequence of charges, \<open>used_quota\<close> is the sum of
  the fixed costs of the charged operations (search 100, videos 1, channels 1),
  \<open>request_count\<close> is the number of charges, the limit is untouched, and
  \<open>can_make_request\<close> answers true exactly when \<open>used_quota\<close> plus the cost of the
  operation stays within \<open>daily_limit\<close>, that is, false exactly when the next charge would
  take \<open>used_quota\<close> above the limit.
\<close>

theorem ledger_accounting:
  "used_quota (charge_all (QuotaManager_init limit) ops) = sum_list (map cost_of ops)
   \<and> request_count (charge_all (QuotaManager_init limit) ops) = int (length ops)
   \<and> daily_limit (charge_all (QuotaManager_init limit) ops) = limit
   \<and> cost_of ''search'' = 100 \<and> cost_of ''videos'' = 1 \<and> cost_of ''channels'' = 1
   \<and> can_make_request (charge_all (QuotaManager_init limit) ops) operation
       = (sum_list (map cost_of ops) + cost_of operation \<le> limit)
   \<and> (\<not> can_make_request (charge_all (QuotaManager_init limit) ops) operation)
       = (limit < used_quota (record_request (charge_all (QuotaManager_init limit) ops) operation))"
  by (simp add: charge_all_def foldl_record_request QuotaManager_init_def
      can_make_request_def record_request_def not_le)

section \<open>Properties of the gateway\<close>

lemmas client_defs = client_search_videos_def client_get_video_details_def
  client_get_channel_details_def wait_for_rate_limit_def sleep_def log_call_def charge_def
  record_request_def can_make_request_def get_remaining_quota_def raised_by_def
  quota_exceeded_signal_def cost_of_def COSTS_def Let_def

lemmas fixture_defs = scripted_def scripted_answer_def new_client_def world0_def
  QuotaManager_init_def quota_refusal_def search_hit_def no_id_hit_def channel_hit_def

lemma trace_sleep [simp]: "trace (sleep d w) = trace w"
  by (simp add: sleep_def)

lemma trace_wait [simp]: "trace (snd (wait_for_rate_limit cw)) = trace (snd cw)"
  by (simp add: wait_for_rate_limit_def Let_def)

lemma quota_wait [simp]: "quota_manager (fst (wait_for_rate_limit cw)) = quota_manager (fst cw)"
  by (simp add: wait_for_rate_limit_def Let_def)

lemma new_calls_same [simp]: "new_calls w w = []"
  by (simp add: new_calls_def)

lemma new_calls_log_call [simp]: "trace w1 = trace w \<Longrightarrow> new_calls w (log_call x w1) = [x]"
  by (simp add: new_calls_def log_call_def)






text \<open>
  C10. With an empty list of ids, \<open>get_video_details\<close> and \<open>get_channel_details\<close> of the
  client return \<open>{'items': []}\<close> and the client and the world exactly as they were: no
  sleep, no remote call, no change of the ledger or of \<open>last_request_time\<close>.
\<close>

theorem empty_ids_return_at_once:
  "client_get_video_details yt cw [] = (Inr \<lparr>items = Some [], nextPageToken = None\<rparr>, cw)
   \<and> client_get_channel_details yt cw [] = (Inr \<lparr>items = Some [], nextPageToken = None\<rparr>, cw)
   \<and> slept (snd (snd (client_get_video_details yt cw []))) = slept (snd cw)
   \<and> slept (snd (snd (client_get_channel_details yt cw []))) = slept (snd cw)
   \<and> new_calls (snd cw) (snd (snd (client_get_video_details yt cw []))) = []
   \<and> new_calls (snd cw) (snd (snd (client_get_channel_details yt cw []))) = []
   \<and> quota_manager (fst (snd (client_get_video_details yt cw []))) = quota_manager (fst cw)
   \<and> quota_manager (fst (snd (client_get_channel_details yt cw []))) = quota_manager (fst cw)"
  by (simp add: client_get_video_details_def client_get_channel_details_def)

section \<open>Properties of the pagination driver\<close>

lemmas driver_defs = search_videos_def search_videos_from_def search_videos_loop.simps
  videos_per_page_def extract_video_data_def dict_get_def slice_upto_def video_of_def
  null_snippet_hit_def

lemma loop_not_entered:
  "\<not> int (length videos) < max_videos \<Longrightarrow>
   search_videos_loop yt cw query max_videos ord videos page_token = (Completed, videos, cw)"
  by (subst search_videos_loop.simps) simp

text \<open>
  An invariant of the loop: a property of the state and the list that holds at the start and
  that the gateway call, the normalising of a page and the pause keep, holds at the end. The
  induction is on the budget left, which every further iteration lowers.
\<close>

lemma search_videos_loop_invariant:
  assumes run: "search_videos_loop yt cw query max_videos ord videos page_token = (ex, vs, cw')"
    and start: "P cw videos"
    and call: "\<And>cw videos n tok res cw1. P cw videos \<Longrightarrow>
        client_search_videos yt cw query n tok ord = (res, cw1) \<Longrightarrow> P cw1 videos"
    and page: "\<And>cw videos its e videos'. P cw videos \<Longrightarrow>
        add_items videos its = (e, videos') \<Longrightarrow> P cw videos'"
    and pause: "\<And>cw videos d. P cw videos \<Longrightarrow> P (fst cw, sleep d (snd cw)) videos"
  shows "P cw' vs"
  using run start
proof (induction "nat (daily_limit (quota_manager (fst cw)) - used_quota (quota_manager (fst cw)))"
    arbitrary: cw videos page_token rule: less_induct)
  case less
  show ?case
  proof (cases "int (length videos) < max_videos
      \<and> can_make_request (quota_manager (fst cw)) ''search''")
    case False
    with less.prems(1) have "vs = videos \<and> cw' = cw"
      by (subst (asm) search_videos_loop.simps) (auto simp: Let_def split: if_splits)
    with less.prems(2) show ?thesis by simp
  next
    case True
    let ?n = "min videos_per_page (max_videos - int (length videos))"
    obtain res cw1 where c: "client_search_videos yt cw query ?n page_token ord = (res, cw1)"
      by (metis surj_pair)
    have P1: "P cw1 videos"
      by (rule call [OF less.prems(2) c])
    show ?thesis
    proof (cases res)
      case (Inl e)
      with less.prems(1) True c have "vs = videos \<and> cw' = cw1"
        by (subst (asm) search_videos_loop.simps) (auto simp: Let_def split: exn.splits)
      with P1 show ?thesis by simp
    next
      case (Inr response)
      let ?its = "case items response of None \<Rightarrow> [] | Some xs \<Rightarrow> xs"
      show ?thesis
      proof (cases "?its = []")
        case True
        with less.prems(1) \<open>int (length videos) < max_videos \<and> _\<close> c Inr
        have "vs = videos \<and> cw' = cw1"
          by (subst (asm) search_videos_loop.simps) (auto simp: Let_def)
        with P1 show ?thesis by simp
      next
        case False
        obtain e videos1 where a: "add_items videos ?its = (e, videos1)"
          by (metis surj_pair)
        have P2: "P cw1 videos1"
          by (rule page [OF P1 a])
        show ?thesis
        proof (cases "e = None \<and> \<not> (nextPageToken response = None
            \<or> nextPageToken response = Some [])")
          case stop: False
          with less.prems(1) \<open>int (length videos) < max_videos \<and> _\<close> c Inr False a
          have "vs = videos1 \<and> cw' = cw1"
            by (subst (asm) search_videos_loop.simps) (auto simp: Let_def split: option.splits)
          with P2 show ?thesis by simp
        next
          case again: True
          with less.prems(1) \<open>int (length videos) < max_videos \<and> _\<close> c Inr False a
          have step: "search_videos_loop yt (fst cw1, sleep (1 / 2) (snd cw1)) query max_videos
              ord videos1 (nextPageToken response) = (ex, vs, cw')"
            by (subst (asm) search_videos_loop.simps) (auto simp: Let_def)
          from client_search_videos_Inr [OF c [unfolded Inr]]
          have smaller: "nat (daily_limit (quota_manager (fst (fst cw1, sleep (1 / 2) (snd cw1))))
                - used_quota (quota_manager (fst (fst cw1, sleep (1 / 2) (snd cw1)))))
              < nat (daily_limit (quota_manager (fst cw)) - used_quota (quota_manager (fst cw)))"
            by (simp add: can_make_request_def record_request_def)
          from less.hyps [OF smaller step pause [OF P2]] show ?thesis .
        qed
      qed
    qed
  qed
qed

text \<open>
  The two ways out of \<open>search_videos\<close>. When the loop is left without an exception, the
  list is cut (the comment of the source: "Ensure we don't exceed max\_videos").
\<close>

lemma completed_run_is_cut:
  assumes "fst (search_videos_loop yt cw query max_videos ord [] None) = Completed"
  shows "int (length (fst (search_videos yt cw query max_videos ord))) \<le> max 0 max_videos"
proof (cases "0 < max_videos")
  case False
  then have "search_videos_loop yt cw query max_videos ord [] None = (Completed, [], cw)"
    by (intro loop_not_entered) simp
  then show ?thesis
    by (simp add: search_videos_def search_videos_from_def slice_upto_def)
next
  case True
  obtain ex vs cw' where run:
    "search_videos_loop yt cw query max_videos ord [] None = (ex, vs, cw')"
    by (metis prod_cases3)
  with assms True show ?thesis
    by (simp add: search_videos_def search_videos_from_def slice_upto_def)
qed

text \<open>
  C4, evaluated where the code departs from it. The target is one record. The service
  answers the first page with three items, one more than one page may hold, and the
  \<open>snippet\<close> of the third is \<open>null\<close>. The first two items are appended,
  \<open>extract_video_data\<close> raises \<open>AttributeError\<close> on the third, and the handler of
  \<open>except Exception\<close> returns the list as it stands: two records for a target of one. The
  same page without the third item leaves the loop normally and is cut to one record.
\<close>

theorem error_path_returns_uncut_list:
  "map videoId (fst (search_videos
       (scripted [Response \<lparr>items = Some [search_hit ''v1'' ''c1'', search_hit ''v2'' ''c1'',
                                            null_snippet_hit ''v3''],
                            nextPageToken = None\<rparr>] [])
       (new_client 10000, world0) ''Bach'' 1 ''date'')) = [''v1'', ''v2'']
   \<and> fst (search_videos_loop
       (scripted [Response \<lparr>items = Some [search_hit ''v1'' ''c1'', search_hit ''v2'' ''c1'',
                                            null_snippet_hit ''v3''],
                            nextPageToken = None\<rparr>] [])
       (new_client 10000, world0) ''Bach'' 1 ''date'' [] None) = Raised (AttributeError ''get'')
   \<and> map videoId (fst (search_videos
       (scripted [Response \<lparr>items = Some [search_hit ''v1'' ''c1'', search_hit ''v2'' ''c1''],
                            nextPageToken = None\<rparr>] [])
       (new_client 10000, world0) ''Bach'' 1 ''date'')) = [''v1'']"
  by (simp add: driver_defs client_defs fixture_defs)

lemma add_items_valid:
  "\<forall>v\<in>set videos. videoId v \<noteq> [] \<Longrightarrow>
   \<forall>v\<in>set (snd (add_items videos its)). videoId v \<noteq> []"
proof (induction its arbitrary: videos)
  case Nil
  then show ?case by simp
next
  case (Cons a its)
  show ?case
  proof (cases "extract_video_data a")
    case (Inl e)
    with Cons.prems show ?thesis by simp
  next
    case (Inr vd)
    let ?held = "if videoId vd \<noteq> [] then videos @ [vd] else videos"
    from Cons.prems have "\<forall>v\<in>set ?held. videoId v \<noteq> []"
      by simp
    from Cons.IH [OF this] show ?thesis
      by (simp only: add_items.simps Inr sum.case)
  qed
qed

lemma loop_valid:
  assumes "search_videos_loop yt cw query max_videos ord videos page_token = (ex, vs, cw')"
    and "\<forall>v\<in>set videos. videoId v \<noteq> []"
  shows "\<forall>v\<in>set vs. videoId v \<noteq> []"
proof (rule search_videos_loop_invariant
    [where P = "\<lambda>cw videos. \<forall>v\<in>set videos. videoId v \<noteq> []", OF assms])
  fix videos :: "video_record list" and its e videos'
  assume "\<forall>v\<in>set videos. videoId v \<noteq> []" and "add_items videos its = (e, videos')"
  with add_items_valid [of videos its] show "\<forall>v\<in>set videos'. videoId v \<noteq> []"
    by simp
qed

lemma set_slice_upto: "set (slice_upto xs n) \<subseteq> set xs"
  by (auto simp: slice_upto_def dest: in_set_takeD)

text \<open>
  C8. Every record that \<open>search_videos\<close> returns has a non-empty \<open>videoId\<close>: a raw item
  whose id has no \<open>videoId\<close> (or an empty one) is never appended.
\<close>

theorem search_videos_ids_nonempty:
  "\<forall>v\<in>set (fst (search_videos yt cw query max_videos ord)). videoId v \<noteq> []"
proof -
  obtain ex vs cw' where run:
    "search_videos_loop yt cw query max_videos ord [] None = (ex, vs, cw')"
    by (metis prod_cases3)
  then have "\<forall>v\<in>set vs. videoId v \<noteq> []"
    by (rule loop_valid) simp
  moreover have "set (fst (search_videos yt cw query max_videos ord)) \<subseteq> set vs"
    using run set_slice_upto [of vs max_videos]
    by (cases ex) (simp_all add: search_videos_def search_videos_from_def)
  ultimately show ?thesis by blast
qed

text \<open>A page holding an item without \<open>videoId\<close> between two videos yields the two videos.\<close>

theorem search_videos_ids_nonempty_witness:
  "map videoId (fst (search_videos
       (scripted [Response \<lparr>items = Some [search_hit ''v1'' ''c1'', no_id_hit, search_hit ''v2'' ''c1''],
                            nextPageToken = None\<rparr>] [])
       (new_client 10000, world0) ''Bach'' 2000 ''date'')) = [''v1'', ''v2'']
   \<and> list_all (\<lambda>v. videoId v \<noteq> []) (fst (search_videos
       (scripted [Response \<lparr>items = Some [search_hit ''v1'' ''c1'', no_id_hit, search_hit ''v2'' ''c1''],
                            nextPageToken = None\<rparr>] [])
       (new_client 10000, world0) ''Bach'' 2000 ''date''))"
  using search_videos_ids_nonempty
    [of "scripted [Response \<lparr>items = Some [search_hit ''v1'' ''c1'', no_id_hit, search_hit ''v2'' ''c1''],
                            nextPageToken = None\<rparr>] []"
        "(new_client 10000, world0)" "''Bach''" 2000 "''date''"]
  by (simp add: driver_defs client_defs fixture_defs list_all_iff)

text \<open>
  C7. In an iteration of the loop (fewer than \<open>max_videos\<close> records held), if the local
  pre-check \<open>can_make_request('search')\<close> fails, \<open>search_videos\<close> returns the records
  held so far and leaves the client and the world untouched; if the pre-check passes and the
  gateway raises \<open>QuotaExceededError\<close>, it returns the records held so far with the state
  the gateway left. The driver is a total function that returns a list in either case: the
  quota failure does not reach its caller.
\<close>

theorem quota_block_returns_partial:
  assumes "int (length videos) < max_videos"
  shows "(\<not> can_make_request (quota_manager (fst cw)) ''search'' \<longrightarrow>
            search_videos_from yt cw query max_videos ord videos page_token = (videos, cw))
       \<and> (can_make_request (quota_manager (fst cw)) ''search'' \<and>
          client_search_videos yt cw query (min videos_per_page (max_videos - int (length videos)))
              page_token ord = (Inl (QuotaExceededError m), cw1) \<longrightarrow>
            search_videos_from yt cw query max_videos ord videos page_token = (videos, cw1))"
  using assms
  by (auto simp: search_videos_from_def search_videos_loop.simps [of yt cw] Let_def slice_upto_def)

text \<open>
  With a limit of 150 and one search charged, the pre-check before the next page fails and
  the record held is returned with the state untouched; with budget left and a remote quota
  refusal, the record held is returned as well.
\<close>

theorem quota_block_returns_partial_witness:
  "search_videos_from (scripted [] []) (charge (new_client 150) ''search'', world0)
       ''Bach'' 2000 ''date'' [video_of ''v1'' ''c1''] (Some ''t'')
     = ([video_of ''v1'' ''c1''], (charge (new_client 150) ''search'', world0))
   \<and> fst (search_videos_from (scripted [quota_refusal] []) (new_client 10000, world0)
       ''Bach'' 2000 ''date'' [video_of ''v1'' ''c1''] (Some ''t''))
     = [video_of ''v1'' ''c1'']"
proof -
  let ?v = "video_of ''v1'' ''c1''"
  have held: "int (length [?v]) < 2000"
    by simp
  have local: "\<not> can_make_request (quota_manager (fst (charge (new_client 150) ''search'', world0))) ''search''"
    by (simp add: client_defs fixture_defs)
  have remote: "can_make_request (quota_manager (fst (new_client 10000, world0))) ''search'' \<and>
      client_search_videos (scripted [quota_refusal] []) (new_client 10000, world0) ''Bach''
        (min videos_per_page (2000 - int (length [?v]))) (Some ''t'') ''date''
      = (Inl (QuotaExceededError DailyLimitExceeded),
         snd (client_search_videos (scripted [quota_refusal] []) (new_client 10000, world0) ''Bach''
        (min videos_per_page (2000 - int (length [?v]))) (Some ''t'') ''date''))"
    by (simp add: client_defs fixture_defs videos_per_page_def)
  from quota_block_returns_partial [OF held, THEN conjunct1, rule_format, OF local]
    quota_block_returns_partial [OF held, THEN conjunct2, rule_format, OF remote]
  show ?thesis
    by simp
qed

section \<open>Properties of the campaign\<close>

lemmas campaign_defs = main_video_phase_def get_remaining_queries_def get_completed_data_def
  get_quota_usage_def save_progress_def write_json_def write_ops_def VIDEOS_PER_QUERY_def
  PROGRESS_FILE_def opt_get_def toy_dump_def fresh_tracker_def resumed_tracker_def

lemma client_search_calls:
  assumes "client_search_videos yt cw query n tok ord = (res, cw')"
  shows "\<exists>cs. trace (snd cw') = trace (snd cw) @ cs \<and> calls_for query cs"
  using assms
  by (auto simp: client_search_videos_def Let_def log_call_def calls_for_def
      split: if_splits outcome.splits)

lemma loop_calls:
  assumes "search_videos_loop yt cw query max_videos ord videos page_token = (ex, vs, cw')"
  shows "\<exists>cs. trace (snd cw') = trace (snd cw) @ cs \<and> calls_for query cs"
proof (rule search_videos_loop_invariant
    [where P = "\<lambda>cw1 videos. \<exists>cs. trace (snd cw1) = trace (snd cw) @ cs \<and> calls_for query cs",
      OF assms])
  have "trace (snd cw) = trace (snd cw) @ [] \<and> calls_for query []"
    by (simp add: calls_for_def)
  then show "\<exists>cs. trace (snd cw) = trace (snd cw) @ cs \<and> calls_for query cs"
    by blast
next
  fix cw0 :: "YouTubeAPIClient \<times> world" and n tok res cw1
  assume "\<exists>cs. trace (snd cw0) = trace (snd cw) @ cs \<and> calls_for query cs"
    and "client_search_videos yt cw0 query n tok ord = (res, cw1)"
  then obtain cs0 cs1 where "trace (snd cw0) = trace (snd cw) @ cs0" "calls_for query cs0"
    "trace (snd cw1) = trace (snd cw0) @ cs1" "calls_for query cs1"
    using client_search_calls by blast
  then have "trace (snd cw1) = trace (snd cw) @ (cs0 @ cs1) \<and> calls_for query (cs0 @ cs1)"
    by (simp add: calls_for_def)
  then show "\<exists>cs. trace (snd cw1) = trace (snd cw) @ cs \<and> calls_for query cs"
    by blast
next
  fix cw0 :: "YouTubeAPIClient \<times> world"
  assume "\<exists>cs. trace (snd cw0) = trace (snd cw) @ cs \<and> calls_for query cs"
  then show "\<exists>cs. trace (snd cw0) = trace (snd cw) @ cs \<and> calls_for query cs" .
next
  fix cw0 :: "YouTubeAPIClient \<times> world" and d
  assume "\<exists>cs. trace (snd cw0) = trace (snd cw) @ cs \<and> calls_for query cs"
  then show "\<exists>cs. trace (snd (fst cw0, sleep d (snd cw0))) = trace (snd cw) @ cs
      \<and> calls_for query cs"
    by simp
qed

lemma search_videos_calls:
  assumes "search_videos yt cw query max_videos ord = (vs, cw')"
  shows "\<exists>cs. trace (snd cw') = trace (snd cw) @ cs \<and> calls_for query cs"
proof -
  obtain ex vs1 cw1 where run:
    "search_videos_loop yt cw query max_videos ord [] None = (ex, vs1, cw1)"
    by (metis prod_cases3)
  with assms have "cw' = cw1"
    by (cases ex) (simp_all add: search_videos_def search_videos_from_def)
  with loop_calls [OF run] show ?thesis by simp
qed

lemma trace_save_progress [simp]:
  "trace (snd (save_progress dump t w completed vd)) = trace w"
  by (simp add: save_progress_def write_json_def Let_def)

lemma main_query_loop_calls:
  "main_query_loop yt dump cw t avd qs = (cw', t', avd')
   \<Longrightarrow> \<exists>css. trace (snd cw') = trace (snd cw) @ concat css \<and> length css \<le> length qs
          \<and> list_all2 calls_for (take (length css) qs) css"
proof (induction qs arbitrary: cw t avd)
  case Nil
  then have "trace (snd cw') = trace (snd cw) @ concat []" by simp
  then show ?case by (intro exI [of _ "[]"]) simp
next
  case (Cons query rest)
  show ?case
  proof (cases "qu_remaining (get_quota_usage (fst cw)) < 4000")
    case True
    with Cons.prems have "trace (snd cw') = trace (snd cw) @ concat []" by simp
    then show ?thesis by (intro exI [of _ "[]"]) simp
  next
    case False
    obtain videos cw1 where sv: "search_videos yt cw query VIDEOS_PER_QUERY ''date'' = (videos, cw1)"
      by (metis surj_pair)
    let ?avd = "dict_set avd query videos"
    obtain t1 w1 where sp: "save_progress dump t (snd cw1) (map fst ?avd) ?avd = (t1, w1)"
      by (metis surj_pair)
    from Cons.prems False sv sp
    have rest: "main_query_loop yt dump (fst cw1, w1) t1 ?avd rest = (cw', t', avd')"
      by (simp add: Let_def)
    from search_videos_calls [OF sv] obtain cs where
      cs: "trace (snd cw1) = trace (snd cw) @ cs" "calls_for query cs" by blast
    from trace_save_progress [of dump t "snd cw1" "map fst ?avd" ?avd] sp
    have w1: "trace w1 = trace (snd cw1)" by simp
    from Cons.IH [OF rest] obtain css where
      css: "trace (snd cw') = trace w1 @ concat css" "length css \<le> length rest"
        "list_all2 calls_for (take (length css) rest) css" by auto
    from cs w1 css have "trace (snd cw') = trace (snd cw) @ concat (cs # css)
        \<and> length (cs # css) \<le> length (query # rest)
        \<and> list_all2 calls_for (take (length (cs # css)) (query # rest)) (cs # css)"
      by simp
    then show ?thesis by blast
  qed
qed

text \<open>
  C6. The remaining queries are exactly the requested queries that are not among the
  \<open>completed_queries\<close> of the checkpoint, in the order of the requested list; and the
  search calls that the campaign makes fall into consecutive blocks, one for each query of
  an initial stretch of the remaining queries, in that order, every call of a block asking
  for the query of the block. So no completed query is asked for again.
\<close>

theorem resume_skips_completed:
  "get_remaining_queries t phrases
     = filter (\<lambda>query. query \<notin> set (opt_get (completed_queries (progress t)) [])) phrases
   \<and> (\<exists>css. new_calls (snd cw) (snd (fst (main_video_phase yt dump cw t phrases))) = concat css
        \<and> length css \<le> length (get_remaining_queries t phrases)
        \<and> list_all2 calls_for (take (length css) (get_remaining_queries t phrases)) css)"
proof
  show "get_remaining_queries t phrases
     = filter (\<lambda>query. query \<notin> set (opt_get (completed_queries (progress t)) [])) phrases"
    by (simp add: get_remaining_queries_def)
next
  let ?rem = "get_remaining_queries t phrases"
  obtain cw' t' avd' where run: "main_video_phase yt dump cw t phrases = (cw', t', avd')"
    by (metis prod_cases3)
  show "\<exists>css. new_calls (snd cw) (snd (fst (main_video_phase yt dump cw t phrases))) = concat css
        \<and> length css \<le> length ?rem \<and> list_all2 calls_for (take (length css) ?rem) css"
  proof (cases "?rem = []")
    case True
    with run have "cw' = cw" by (simp add: main_video_phase_def Let_def)
    with run have "new_calls (snd cw) (snd (fst (main_video_phase yt dump cw t phrases))) = concat []"
      by (simp add: new_calls_def)
    then show ?thesis by (intro exI [of _ "[]"]) simp
  next
    case False
    with run have "main_query_loop yt dump cw t (get_completed_data t) ?rem = (cw', t', avd')"
      by (simp add: main_video_phase_def Let_def)
    from main_query_loop_calls [OF this] obtain css where
      "trace (snd cw') = trace (snd cw) @ concat css" "length css \<le> length ?rem"
      "list_all2 calls_for (take (length css) ?rem) css" by blast
    with run show ?thesis by (auto simp: new_calls_def)
  qed
qed

text \<open>
  The checkpoint holds "Bach Magnificat"; of the two phrases requested only "Mozart Requiem"
  remains, and it is the only one searched for.
\<close>

theorem resume_skips_completed_witness:
  "get_remaining_queries resumed_tracker [''Bach Magnificat'', ''Mozart Requiem'']
     = [''Mozart Requiem'']
   \<and> map call_query (new_calls world0 (snd (fst (main_video_phase
         (scripted [Response \<lparr>items = Some [search_hit ''v1'' ''c1''], nextPageToken = None\<rparr>] [])
         toy_dump (new_client 10000, world0) resumed_tracker
         [''Bach Magnificat'', ''Mozart Requiem'']))))
     = [Some ''Mozart Requiem'']"
  using resume_skips_completed
    [of resumed_tracker "[''Bach Magnificat'', ''Mozart Requiem'']" "(new_client 10000, world0)"
        "scripted [Response \<lparr>items = Some [search_hit ''v1'' ''c1''], nextPageToken = None\<rparr>] []"
        toy_dump]
  by (simp add: campaign_defs driver_defs client_defs fixture_defs new_calls_def)

text \<open>
  What happens after a query that the quota cut short. When the local pre-check failed, the
  ledger has fewer than 100 units left, which is below the 4000 that the campaign asks for
  before a query, so no further query is searched. The handler
  \<open>except QuotaExceededError\<close> of the task can never run: the body of its \<open>try\<close>
  block raises no such exception.
\<close>

lemmas task_defs = task_video_phase_def task_query_loop.simps task_try_query_def
  update_status_def load_progress_from_def idle_status_def SEARCH_PHRASES_def

lemma task_try_query_no_quota_error:
  "fst (task_try_query yt dump s query n) \<noteq> Some (QuotaExceededError m)"
  by (auto simp: task_try_query_def write_json_def Let_def split: prod.splits sum.splits if_splits)

lemma main_stops_when_ledger_blocked:
  assumes "\<not> can_make_request (quota_manager (fst cw)) ''search''"
  shows "main_query_loop yt dump cw t all_video_data queries = (cw, t, all_video_data)"
  using assms
  by (cases queries)
    (simp_all add: get_quota_usage_def get_remaining_quota_def can_make_request_def)

lemma task_stops_when_ledger_blocked:
  assumes "\<not> can_make_request (quota_manager (fst cw)) ''search''"
  shows "new_calls (snd cw) (snd (fst (task_query_loop yt dump (cw, st, all_video_data) n queries))) = []"
  using assms
  by (cases queries)
    (simp_all add: get_quota_usage_def get_remaining_quota_def can_make_request_def Let_def)

text \<open>
  C3, evaluated where the code departs from it. The limit is 10000 and the service answers
  every search with a 403 \<open>quotaExceeded\<close>. The gateway raises \<open>QuotaExceededError\<close>,
  the driver for "Bach Magnificat" stops with no records, the campaign saves them, and then,
  the ledger still showing 10000 units left, goes on to search for "Mozart Requiem". Both
  \<open>main\<close> and the task of the web service do so, and the task never sets its
  \<open>quota_exceeded\<close> flag.
\<close>

theorem campaign_goes_on_after_remote_quota_refusal:
  "fst (client_search_videos (scripted [quota_refusal, quota_refusal] [])
          (new_client 10000, world0) ''Bach Magnificat'' 50 None ''date'')
     = Inl (QuotaExceededError DailyLimitExceeded)
   \<and> map call_query (new_calls world0 (snd (fst (main_video_phase
         (scripted [quota_refusal, quota_refusal] []) toy_dump (new_client 10000, world0)
         fresh_tracker [''Bach Magnificat'', ''Mozart Requiem'']))))
     = [Some ''Bach Magnificat'', Some ''Mozart Requiem'']
   \<and> map_of (files (snd (fst (main_video_phase
         (scripted [quota_refusal, quota_refusal] []) toy_dump (new_client 10000, world0)
         fresh_tracker [''Bach Magnificat'', ''Mozart Requiem''])))) PROGRESS_FILE
     = Some ''{Bach Magnificat;Mozart Requiem;}''
   \<and> map call_query (new_calls world0 (snd (fst (task_video_phase
         (scripted [quota_refusal, quota_refusal] []) toy_dump (\<lambda>text. None)
         (new_client 10000, world0) idle_status
         (Some [''Bach Magnificat'', ''Mozart Requiem'']) 2000))))
     = [Some ''Bach Magnificat'', Some ''Mozart Requiem'']
   \<and> \<not> quota_exceeded (fst (snd (task_video_phase
         (scripted [quota_refusal, quota_refusal] []) toy_dump (\<lambda>text. None)
         (new_client 10000, world0) idle_status
         (Some [''Bach Magnificat'', ''Mozart Requiem'']) 2000)))"
proof (intro conjI)
  show "fst (client_search_videos (scripted [quota_refusal, quota_refusal] [])
          (new_client 10000, world0) ''Bach Magnificat'' 50 None ''date'')
     = Inl (QuotaExceededError DailyLimitExceeded)"
    by (simp add: client_defs fixture_defs)
  show "map call_query (new_calls world0 (snd (fst (main_video_phase
         (scripted [quota_refusal, quota_refusal] []) toy_dump (new_client 10000, world0)
         fresh_tracker [''Bach Magnificat'', ''Mozart Requiem'']))))
     = [Some ''Bach Magnificat'', Some ''Mozart Requiem'']"
    by (simp add: campaign_defs driver_defs client_defs fixture_defs new_calls_def)
  show "map_of (files (snd (fst (main_video_phase
         (scripted [quota_refusal, quota_refusal] []) toy_dump (new_client 10000, world0)
         fresh_tracker [''Bach Magnificat'', ''Mozart Requiem''])))) PROGRESS_FILE
     = Some ''{Bach Magnificat;Mozart Requiem;}''"
    by (simp add: campaign_defs driver_defs client_defs fixture_defs)
  show "map call_query (new_calls world0 (snd (fst (task_video_phase
         (scripted [quota_refusal, quota_refusal] []) toy_dump (\<lambda>text. None)
         (new_client 10000, world0) idle_status
         (Some [''Bach Magnificat'', ''Mozart Requiem'']) 2000))))
     = [Some ''Bach Magnificat'', Some ''Mozart Requiem'']"
    by (simp add: task_defs campaign_defs driver_defs client_defs fixture_defs new_calls_def)
  show "\<not> quota_exceeded (fst (snd (task_video_phase
         (scripted [quota_refusal, quota_refusal] []) toy_dump (\<lambda>text. None)
         (new_client 10000, world0) idle_status
         (Some [''Bach Magnificat'', ''Mozart Requiem'']) 2000)))"
    by (simp add: task_defs campaign_defs driver_defs client_defs fixture_defs new_calls_def)
qed

section \<open>Properties of the channel pass\<close>

lemmas channel_defs = get_channel_details_def channel_batches_loop.simps channel_batch_try_def
  batch_size_def extract_channel_data_def opt_get_def str_bool_def join_def

text \<open>
  What the pass de-duplicates is its request. The ids handed to \<open>get_channel_details\<close> are
  the stripped, non-empty channel ids of the videos, each of them once, in sorted order,
  however often the videos name a channel.
\<close>

lemma foldl_add_channel_id:
  "foldl add_channel_id ids videos
     = ids \<union> {c. c \<noteq> [] \<and> (\<exists>v\<in>set videos. c = strip (channelId v))}"
  by (induction videos arbitrary: ids) (auto simp: add_channel_id_def Let_def)

lemma foldl_all_channel_ids:
  "foldl (\<lambda>ids entry. foldl add_channel_id ids (snd entry)) ids query_video_data
     = ids \<union> {c. c \<noteq> [] \<and>
          (\<exists>entry\<in>set query_video_data. \<exists>v\<in>set (snd entry). c = strip (channelId v))}"
  by (induction query_video_data arbitrary: ids) (auto simp: foldl_add_channel_id)

lemma finite_all_channel_ids:
  "finite {c. c \<noteq> [] \<and>
     (\<exists>entry\<in>set query_video_data. \<exists>v\<in>set (snd entry). c = strip (channelId v))}"
proof (rule finite_subset)
  show "{c. c \<noteq> [] \<and>
       (\<exists>entry\<in>set query_video_data. \<exists>v\<in>set (snd entry). c = strip (channelId v))}
     \<subseteq> (\<lambda>v. strip (channelId v)) ` (\<Union>entry\<in>set query_video_data. set (snd entry))"
    by auto
  show "finite ((\<lambda>v. strip (channelId v)) ` (\<Union>entry\<in>set query_video_data. set (snd entry)))"
    by simp
qed

lemma requested_ids_unique:
  "\<exists>ids. get_channels_for_multiple_queries yt cw query_video_data
            = get_channel_details yt cw ids
     \<and> distinct ids \<and> sorted ids
     \<and> set ids = {c. c \<noteq> [] \<and>
          (\<exists>entry\<in>set query_video_data. \<exists>v\<in>set (snd entry). c = strip (channelId v))}"
proof (intro exI conjI)
  let ?ids = "sorted_list_of_set
      (foldl (\<lambda>ids entry. foldl add_channel_id ids (snd entry)) {} query_video_data)"
  show "get_channels_for_multiple_queries yt cw query_video_data
      = get_channel_details yt cw ?ids"
    by (simp add: get_channels_for_multiple_queries_def Let_def)
  show "distinct ?ids" by simp
  show "sorted ?ids" by simp
  show "set ?ids = {c. c \<noteq> [] \<and>
          (\<exists>entry\<in>set query_video_data. \<exists>v\<in>set (snd entry). c = strip (channelId v))}"
    using finite_all_channel_ids [of query_video_data]
    by (simp add: foldl_all_channel_ids)
qed

text \<open>
  C5, evaluated where the code departs from it. Three videos name the channel UC1, so one
  batch asks for UC1 once. The service answers with a response that lists UC1 twice. The pass
  appends every item of the response and returns two records for UC1: the list that the
  docstring of \<open>get_channels_for_multiple_queries\<close> calls a "list of unique channel data
  dictionaries" names one channel twice.
\<close>

theorem channel_pass_returns_a_channel_twice:
  "map ch_channelId (fst (get_channels_for_multiple_queries
       (scripted [] [Response \<lparr>items = Some [channel_hit ''UC1'', channel_hit ''UC1''],
                               nextPageToken = None\<rparr>])
       (new_client 10000, world0)
       [(''Bach'', [video_of ''v1'' ''UC1'', video_of ''v2'' ''UC1'']),
        (''Mozart'', [video_of ''v3'' ''UC1''])])) = [''UC1'', ''UC1'']
   \<and> \<not> distinct (map ch_channelId (fst (get_channels_for_multiple_queries
       (scripted [] [Response \<lparr>items = Some [channel_hit ''UC1'', channel_hit ''UC1''],
                               nextPageToken = None\<rparr>])
       (new_client 10000, world0)
       [(''Bach'', [video_of ''v1'' ''UC1'', video_of ''v2'' ''UC1'']),
        (''Mozart'', [video_of ''v3'' ''UC1''])])))
   \<and> map (\<lambda>x. case x of ChannelsCall req out \<Rightarrow> lr_id req | _ \<Rightarrow> [])
       (new_calls world0 (snd (snd (get_channels_for_multiple_queries
       (scripted [] [Response \<lparr>items = Some [channel_hit ''UC1'', channel_hit ''UC1''],
                               nextPageToken = None\<rparr>])
       (new_client 10000, world0)
       [(''Bach'', [video_of ''v1'' ''UC1'', video_of ''v2'' ''UC1'']),
        (''Mozart'', [video_of ''v3'' ''UC1''])])))) = [''UC1'']"
proof -
  let ?yt = "scripted [] [Response \<lparr>items = Some [channel_hit ''UC1'', channel_hit ''UC1''],
                               nextPageToken = None\<rparr>]"
  let ?qvd = "[(''Bach'', [video_of ''v1'' ''UC1'', video_of ''v2'' ''UC1'']),
        (''Mozart'', [video_of ''v3'' ''UC1''])]"
  have ids: "sorted_list_of_set
        (foldl (\<lambda>ids entry. foldl add_channel_id ids (snd entry)) {} ?qvd) = [''UC1'']"
    by code_simp
  have run: "get_channels_for_multiple_queries ?yt (new_client 10000, world0) ?qvd
      = get_channel_details ?yt (new_client 10000, world0) [''UC1'']"
    by (simp only: get_channels_for_multiple_queries_def Let_def ids)
  show ?thesis
    unfolding run by (simp add: channel_defs client_defs fixture_defs new_calls_def)
qed

section \<open>Properties of checkpoint persistence\<close>

lemma map_of_dict_set_same [simp]: "map_of (dict_set fs k v) k = Some v"
  by (induction fs) auto

lemma map_of_dict_set_other [simp]: "k' \<noteq> k \<Longrightarrow> map_of (dict_set fs k v) k' = map_of fs k'"
  by (induction fs) auto

lemma appends_same:
  "map_of fs path = Some old \<Longrightarrow>
   map_of (foldl apply_file_op fs (map (Append path) cs)) path = Some (old @ concat cs)"
  by (induction cs arbitrary: fs old) (simp_all add: opt_get_def)

lemma appends_other:
  "other \<noteq> path \<Longrightarrow>
   map_of (foldl apply_file_op fs (map (Append path) cs)) other = map_of fs other"
  by (induction cs arbitrary: fs) simp_all

lemma killed_content:
  "map_of (files (write_json_killed w path chunks k)) path
     = (if k = 0 then map_of (files w) path else Some (concat (take (k - 1) chunks)))"
proof (cases k)
  case 0
  then show ?thesis by (simp add: write_json_killed_def)
next
  case (Suc j)
  have "map_of (foldl apply_file_op (dict_set (files w) path []) (map (Append path) (take j chunks))) path
      = Some ([] @ concat (take j chunks))"
    by (rule appends_same) simp
  with Suc show ?thesis
    by (simp add: write_json_killed_def write_ops_def take_map)
qed

lemma killed_other:
  "other \<noteq> path \<Longrightarrow>
   map_of (files (write_json_killed w path chunks k)) other = map_of (files w) other"
  by (cases k) (simp_all add: write_json_killed_def write_ops_def take_map appends_other)

lemma prefix_concat_take: "prefix (concat (take j chunks)) (concat chunks)"
proof -
  have "concat chunks = concat (take j chunks) @ concat (drop j chunks)"
    by (metis append_take_drop_id concat_append)
  then show ?thesis by (metis prefixI)
qed

text \<open>
  C9 as stated fails: \<open>save_progress\<close> opens the checkpoint file itself for writing, which
  empties it, and writes the new text into it. Killed after the first file operation, the
  process leaves an empty file, which is neither the old checkpoint nor the new one; killed
  after the second, the first piece of the new text.
\<close>

theorem persist_not_atomic_counterexample:
  "map_of (files world_with_checkpoint) PROGRESS_FILE = Some ''{}''
   \<and> map_of (files (snd (save_progress toy_dump fresh_tracker world_with_checkpoint
         [''Bach Magnificat''] [(''Bach Magnificat'', [])]))) PROGRESS_FILE
       = Some ''{Bach Magnificat;}''
   \<and> map_of (files (save_progress_killed toy_dump fresh_tracker world_with_checkpoint
         [''Bach Magnificat''] [(''Bach Magnificat'', [])] 1)) PROGRESS_FILE = Some []
   \<and> map_of (files (save_progress_killed toy_dump fresh_tracker world_with_checkpoint
         [''Bach Magnificat''] [(''Bach Magnificat'', [])] 2)) PROGRESS_FILE = Some ''{''"
  by (simp add: save_progress_killed_def checkpoint_at_def write_json_killed_def
      world_with_checkpoint_def campaign_defs fixture_defs)

text \<open>
  C9, amended. \<open>save_progress\<close> rewrites the checkpoint file in place. Killed after
  \<open>k\<close> file operations, the process leaves the file as it was (\<open>k = 0\<close>) or holding the
  first \<open>k - 1\<close> pieces of the new text, a prefix of it; no other file is touched; and a
  persist that ran to its end on a writable path leaves the complete new text, which is the
  state after the last file operation. The last two parts say the same of the write itself,
  which the task of the web service calls directly.
\<close>

theorem checkpoint_rewritten_in_place:
  "map_of (files (save_progress_killed dump t w completed vd k)) (progress_file t)
     = (if k = 0 then map_of (files w) (progress_file t)
        else Some (concat (take (k - 1) (dump (checkpoint_at w completed vd)))))
   \<and> prefix (concat (take (k - 1) (dump (checkpoint_at w completed vd))))
        (concat (dump (checkpoint_at w completed vd)))
   \<and> (\<forall>other. other \<noteq> progress_file t \<longrightarrow>
         map_of (files (save_progress_killed dump t w completed vd k)) other
           = map_of (files w) other)
   \<and> (progress_file t \<notin> set (unwritable w) \<longrightarrow>
         snd (save_progress dump t w completed vd)
           = save_progress_killed dump t w completed vd
               (Suc (length (dump (checkpoint_at w completed vd))))
         \<and> map_of (files (snd (save_progress dump t w completed vd))) (progress_file t)
           = Some (concat (dump (checkpoint_at w completed vd))))
   \<and> map_of (files (write_json_killed w path chunks k)) path
       = (if k = 0 then map_of (files w) path else Some (concat (take (k - 1) chunks)))
   \<and> (path \<notin> set (unwritable w) \<longrightarrow>
         write_json w path chunks = Inr (write_json_killed w path chunks (Suc (length chunks))))"
proof (intro conjI)
  show "map_of (files (write_json_killed w path chunks k)) path
       = (if k = 0 then map_of (files w) path else Some (concat (take (k - 1) chunks)))"
    by (rule killed_content)
  show "path \<notin> set (unwritable w) \<longrightarrow>
         write_json w path chunks = Inr (write_json_killed w path chunks (Suc (length chunks)))"
    by (simp add: write_json_def write_json_killed_def write_ops_def)
  let ?chunks = "dump (checkpoint_at w completed vd)"
  show "map_of (files (save_progress_killed dump t w completed vd k)) (progress_file t)
     = (if k = 0 then map_of (files w) (progress_file t)
        else Some (concat (take (k - 1) ?chunks)))"
    unfolding save_progress_killed_def by (rule killed_content)
  show "prefix (concat (take (k - 1) ?chunks)) (concat ?chunks)"
    by (rule prefix_concat_take)
  show "\<forall>other. other \<noteq> progress_file t \<longrightarrow>
         map_of (files (save_progress_killed dump t w completed vd k)) other
           = map_of (files w) other"
    by (simp add: save_progress_killed_def killed_other)
  have whole: "progress_file t \<notin> set (unwritable w) \<Longrightarrow>
         snd (save_progress dump t w completed vd)
           = save_progress_killed dump t w completed vd (Suc (length ?chunks))"
    by (simp add: save_progress_def save_progress_killed_def checkpoint_at_def Let_def
        write_json_def write_json_killed_def write_ops_def)
  have content: "map_of (files (save_progress_killed dump t w completed vd (Suc (length ?chunks))))
        (progress_file t) = Some (concat ?chunks)"
    unfolding save_progress_killed_def by (simp add: killed_content)
  show "progress_file t \<notin> set (unwritable w) \<longrightarrow>
         snd (save_progress dump t w completed vd)
           = save_progress_killed dump t w completed vd (Suc (length ?chunks))
         \<and> map_of (files (snd (save_progress dump t w completed vd))) (progress_file t)
           = Some (concat ?chunks)"
    using whole content by simp
qed

text \<open>
  An old checkpoint \<open>{}\<close> is replaced by one that lists "Bach Magnificat": the persist run
  to its end leaves the new text.
\<close>

theorem checkpoint_rewritten_in_place_witness:
  "map_of (files (snd (save_progress toy_dump fresh_tracker world_with_checkpoint
         [''Bach Magnificat''] [(''Bach Magnificat'', [])]))) (progress_file fresh_tracker)
     = Some ''{Bach Magnificat;}''"
proof -
  have writable: "progress_file fresh_tracker \<notin> set (unwritable world_with_checkpoint)"
    by (simp add: world_with_checkpoint_def fixture_defs)
  from checkpoint_rewritten_in_place
    [of toy_dump fresh_tracker world_with_checkpoint "[''Bach Magnificat'']"
        "[(''Bach Magnificat'', [])]" 0,
      THEN conjunct2, THEN conjunct2, THEN conjunct2, THEN conjunct1, rule_format,
      OF writable, THEN conjunct2]
  show ?thesis
    by (simp add: checkpoint_at_def toy_dump_def opt_get_def)
qed

end
